theory Spec2Isabelle
  imports Complex_Main
begin

section \<open>The notebook as a program\<close>

text \<open>
  The repository is one Jupyter notebook, \<^verbatim>\<open>bias_detection_and_correction_after_training.ipynb\<close>.
  Its code cells are straight-line Python: imports, assignments and expression statements
  whose right-hand sides call fairlearn, scikit-learn and AIF360. The statements are
  transcribed below as abstract syntax, node for node as Python's own \<^verbatim>\<open>ast\<close> module
  names them (\<^verbatim>\<open>Name\<close>, \<^verbatim>\<open>Attribute\<close>, \<^verbatim>\<open>Call\<close> with its positional arguments and its
  \<^verbatim>\<open>keyword\<close>s, \<^verbatim>\<open>Subscript\<close>, ...); a dictionary display keeps its keys and values as
  items, in source order. A literal keeps its source text.
\<close>

datatype literal = Str string | Num string | Bool bool

datatype expr =
    Name string
  | Constant literal
  | Attribute expr string
  | Call expr "expr list" "keyword list"
  | Subscript expr expr
  | TupleE "expr list"
  | ListE "expr list"
  | DictE "dict_item list"
  | Slice
  | Compare expr string expr
  | UnaryOp string expr
and keyword = Keyword string expr
and dict_item = Item expr expr

datatype stmt =
    Import string "string option"
  | ImportFrom string "string list"
  | Assign expr expr
  | Expr expr

text \<open>A code cell is its position in the notebook's list of cells (counted from 0, markdown
  cells included) with its statements.\<close>

type_synonym cell = "nat \<times> stmt list"

subsection \<open>Name binding\<close>

text \<open>
  Python resolves a name when the expression that mentions it is evaluated, and raises
  \<^verbatim>\<open>NameError\<close> when the name is bound neither in the module's globals nor in the builtins.
  \<open>loads\<close> lists the names an expression reads, in Python's evaluation order: the callee
  before the arguments, positional arguments before keyword values, left before right.
  An attribute name (\<^verbatim>\<open>x.scores\<close>) and a keyword (\<^verbatim>\<open>f(eps=...)\<close>) are not looked up.
\<close>

fun loads :: "expr \<Rightarrow> string list"
  and loads_kw :: "keyword \<Rightarrow> string list"
  and loads_item :: "dict_item \<Rightarrow> string list" where
  "loads (Name n) = [n]"
| "loads (Constant c) = []"
| "loads (Attribute e a) = loads e"
| "loads (Call f args kws) = loads f @ concat (map loads args) @ concat (map loads_kw kws)"
| "loads (Subscript e i) = loads e @ loads i"
| "loads (TupleE es) = concat (map loads es)"
| "loads (ListE es) = concat (map loads es)"
| "loads (DictE items) = concat (map loads_item items)"
| "loads Slice = []"
| "loads (Compare l opr r) = loads l @ loads r"
| "loads (UnaryOp opr e) = loads e"
| "loads_kw (Keyword k e) = loads e"
| "loads_item (Item k v) = loads k @ loads v"

text \<open>The exceptions of the model: Python's \<^verbatim>\<open>NameError\<close> with the name it reports, and
  the \<^verbatim>\<open>ValueError\<close> and \<^verbatim>\<open>IndexError\<close> the library calls modelled further down raise.\<close>

datatype py_error = NameError string | ValueError | IndexError

type_synonym env = "string set"

definition first_unbound :: "env \<Rightarrow> string list \<Rightarrow> string option" where
  "first_unbound env ns = find (\<lambda>n. n \<notin> env) ns"

text \<open>Evaluating an expression: the first unbound name it reads raises.\<close>

definition eval_expr :: "env \<Rightarrow> expr \<Rightarrow> py_error option" where
  "eval_expr env e = map_option NameError (first_unbound env (loads e))"

text \<open>
  Storing to a target. A plain name is bound. An attribute or a subscript target binds
  nothing: its object is read first (\<^verbatim>\<open>d.scores = v\<close> needs \<^verbatim>\<open>d\<close>). A tuple target stores
  to its elements from left to right.
\<close>

fun store :: "expr \<Rightarrow> env \<Rightarrow> py_error + env"
  and store_all :: "expr list \<Rightarrow> env \<Rightarrow> py_error + env" where
  "store (Name n) env = Inr (insert n env)"
| "store (Attribute e a) env =
     (case eval_expr env e of Some err \<Rightarrow> Inl err | None \<Rightarrow> Inr env)"
| "store (Subscript e i) env =
     (case eval_expr env (TupleE [e, i]) of Some err \<Rightarrow> Inl err | None \<Rightarrow> Inr env)"
| "store (TupleE ts) env = store_all ts env"
| "store (ListE ts) env = store_all ts env"
| "store (Constant c) env = Inr env"
| "store (Call f args kws) env = Inr env"
| "store (DictE items) env = Inr env"
| "store Slice env = Inr env"
| "store (Compare l opr r) env = Inr env"
| "store (UnaryOp opr e) env = Inr env"
| "store_all [] env = Inr env"
| "store_all (t # ts) env =
     (case store t env of Inl err \<Rightarrow> Inl err | Inr env' \<Rightarrow> store_all ts env')"

text \<open>
  \<^verbatim>\<open>import m\<close> binds the first component of the module path, \<^verbatim>\<open>import m as a\<close> binds \<open>a\<close>,
  \<^verbatim>\<open>from m import a, b\<close> binds \<open>a\<close> and \<open>b\<close>. An assignment evaluates its right-hand side
  first and then stores. Calls into the imported libraries are taken to return: the model
  follows the names only.
\<close>

fun exec_stmt :: "env \<Rightarrow> stmt \<Rightarrow> py_error + env" where
  "exec_stmt env (Import m None) = Inr (insert (takeWhile (\<lambda>c. c \<noteq> CHR ''.'') m) env)"
| "exec_stmt env (Import m (Some a)) = Inr (insert a env)"
| "exec_stmt env (ImportFrom m ns) = Inr (set ns \<union> env)"
| "exec_stmt env (Assign target v) =
     (case eval_expr env v of Some err \<Rightarrow> Inl err | None \<Rightarrow> store target env)"
| "exec_stmt env (Expr e) =
     (case eval_expr env e of Some err \<Rightarrow> Inl err | None \<Rightarrow> Inr env)"

text \<open>A cell runs its statements in order and stops at the first exception; the bindings
  made before it stay in the kernel's namespace.\<close>

fun exec_cell :: "env \<Rightarrow> stmt list \<Rightarrow> py_error option \<times> env" where
  "exec_cell env [] = (None, env)"
| "exec_cell env (s # ss) =
     (case exec_stmt env s of Inl err \<Rightarrow> (Some err, env) | Inr env' \<Rightarrow> exec_cell env' ss)"

text \<open>\<^verbatim>\<open>Run All\<close>: the cells in order, stopping at the first cell that raises.\<close>

fun run_all :: "env \<Rightarrow> cell list \<Rightarrow> (nat \<times> py_error) option" where
  "run_all env [] = None"
| "run_all env ((i, ss) # cs) =
     (case exec_cell env ss of
        (Some err, env') \<Rightarrow> Some (i, err)
      | (None, env') \<Rightarrow> run_all env' cs)"

text \<open>Running the cells one by one and going on after an exception: the outcome of each
  cell, in order.\<close>

fun run_each :: "env \<Rightarrow> cell list \<Rightarrow> (nat \<times> py_error option) list" where
  "run_each env [] = []"
| "run_each env ((i, ss) # cs) =
     (case exec_cell env ss of (r, env') \<Rightarrow> (i, r) # run_each env' cs)"

text \<open>The names a statement can bind, whatever the namespace.\<close>

fun targets :: "expr \<Rightarrow> string list" and targets_all :: "expr list \<Rightarrow> string list" where
  "targets (Name n) = [n]"
| "targets (TupleE ts) = targets_all ts"
| "targets (ListE ts) = targets_all ts"
| "targets (Constant c) = []"
| "targets (Attribute e a) = []"
| "targets (Call f args kws) = []"
| "targets (Subscript e i) = []"
| "targets (DictE items) = []"
| "targets Slice = []"
| "targets (Compare l opr r) = []"
| "targets (UnaryOp opr e) = []"
| "targets_all [] = []"
| "targets_all (t # ts) = targets t @ targets_all ts"

fun binds :: "stmt \<Rightarrow> string list" where
  "binds (Import m None) = [takeWhile (\<lambda>c. c \<noteq> CHR ''.'') m]"
| "binds (Import m (Some a)) = [a]"
| "binds (ImportFrom m ns) = ns"
| "binds (Assign target v) = targets target"
| "binds (Expr e) = []"

definition bound_names :: "cell list \<Rightarrow> string list" where
  "bound_names cs = concat (map (\<lambda>(i, ss). concat (map binds ss)) cs)"

text \<open>The names of Python 3's built-in functions and constants, bound before any cell runs.
  The built-in exception classes and the names IPython adds to a fresh kernel (\<^verbatim>\<open>In\<close>,
  \<^verbatim>\<open>Out\<close>, \<^verbatim>\<open>get_ipython\<close>, \<^verbatim>\<open>exit\<close>, \<^verbatim>\<open>quit\<close>) are left out: the notebook reads none of
  them.\<close>

definition builtins :: "string list" where
  "builtins =
    [''abs'', ''aiter'', ''all'', ''anext'', ''any'', ''ascii'', ''bin'', ''bool'', ''breakpoint'',
     ''bytearray'', ''bytes'', ''callable'', ''chr'', ''classmethod'', ''compile'', ''complex'',
     ''delattr'', ''dict'', ''dir'', ''divmod'', ''enumerate'', ''eval'', ''exec'', ''filter'',
     ''float'', ''format'', ''frozenset'', ''getattr'', ''globals'', ''hasattr'', ''hash'', ''help'',
     ''hex'', ''id'', ''input'', ''int'', ''isinstance'', ''issubclass'', ''iter'', ''len'', ''list'',
     ''locals'', ''map'', ''max'', ''memoryview'', ''min'', ''next'', ''object'', ''oct'', ''open'',
     ''ord'', ''pow'', ''print'', ''property'', ''range'', ''repr'', ''reversed'', ''round'', ''set'',
     ''setattr'', ''slice'', ''sorted'', ''staticmethod'', ''str'', ''sum'', ''super'', ''tuple'',
     ''type'', ''vars'', ''zip'', ''__import__'', ''True'', ''False'', ''None'', ''Ellipsis'',
     ''NotImplemented'', ''__debug__'']"

subsection \<open>The code cells\<close>

text \<open>Cell 6 (its first statement is on line 84 of the file).\<close>

definition cell_6 :: "stmt list" where
  "cell_6 =
    [ImportFrom ''fairlearn.reductions'' [''ExponentiatedGradient'', ''DemographicParity'', ''EqualizedOdds''],
     ImportFrom ''fairlearn.postprocessing'' [''ThresholdOptimizer''],
     Import ''numpy'' (Some ''np''),
     Import ''pandas'' (Some ''pd''),
     ImportFrom ''sklearn.datasets'' [''make_classification''],
     ImportFrom ''sklearn.linear_model'' [''LogisticRegression''],
     ImportFrom ''sklearn.metrics'' [''confusion_matrix''],
     ImportFrom ''sklearn.model_selection'' [''train_test_split''],
     ImportFrom ''aif360.datasets'' [''BinaryLabelDataset''],
     ImportFrom ''aif360.algorithms.postprocessing'' [''RejectOptionClassification''],
     ImportFrom ''aif360.metrics'' [''BinaryLabelDatasetMetric''],
     Import ''warnings'' None,
     Expr
       (Call (Attribute (Name ''warnings'') ''filterwarnings'')
          [Constant (Str ''ignore'')]
          [])]"

text \<open>Cell 9 (its first statement is on line 135 of the file).\<close>

definition cell_9 :: "stmt list" where
  "cell_9 =
    [Expr
       (Call (Attribute (Attribute (Name ''np'') ''random'') ''seed'')
          [Constant (Num ''42'')]
          []),
     Assign (TupleE [Name ''X'', Name ''y''])
       (Call (Name ''make_classification'')
          []
          [Keyword ''n_samples'' (Constant (Num ''200'')),
           Keyword ''n_features'' (Constant (Num ''5'')),
           Keyword ''n_informative'' (Constant (Num ''3'')),
           Keyword ''n_classes'' (Constant (Num ''2'')),
           Keyword ''random_state'' (Constant (Num ''42''))]),
     Assign (Name ''sensitive_features'')
       (Subscript (Name ''X'') (TupleE [Slice, Constant (Num ''0'')]))]"

text \<open>Cell 11 (its first statement is on line 167 of the file).\<close>

definition cell_11 :: "stmt list" where
  "cell_11 =
    [Assign (TupleE [Name ''X_train'',
                     Name ''X_test'',
                     Name ''y_train'',
                     Name ''y_test'',
                     Name ''sensitive_features_train'',
                     Name ''sensitive_features_test''])
       (Call (Name ''train_test_split'')
          [Name ''X'', Name ''y'', Name ''sensitive_features'']
          [Keyword ''test_size'' (Constant (Num ''0.2'')),
           Keyword ''random_state'' (Constant (Num ''42''))]),
     Assign (Name ''test'')
       (Call (Name ''train_test_split'')
          [Name ''X'', Name ''y'', Name ''sensitive_features'']
          [Keyword ''test_size'' (Constant (Num ''0.2'')),
           Keyword ''random_state'' (Constant (Num ''42''))])]"

text \<open>Cell 13 (its first statement is on line 197 of the file).\<close>

definition cell_13 :: "stmt list" where
  "cell_13 =
    [Assign (Name ''estimator'') (Call (Name ''LogisticRegression'') [] []),
     Assign (Name ''unmitigated_predictor'')
       (Call (Name ''ExponentiatedGradient'')
          []
          [Keyword ''estimator'' (Name ''estimator''),
           Keyword ''constraints'' (Call (Name ''DemographicParity'') [] [])]),
     Expr
       (Call (Attribute (Name ''unmitigated_predictor'') ''fit'')
          [Name ''X_train'', Name ''y_train'']
          [Keyword ''sensitive_features'' (Name ''sensitive_features_train'')])]"

text \<open>Cell 15 (its first statement is on line 229 of the file).\<close>

definition cell_15 :: "stmt list" where
  "cell_15 =
    [Assign (Name ''y_pred'')
       (Call (Attribute (Name ''unmitigated_predictor'') ''predict'') [Name ''X_test''] []),
     Assign (Name ''conf_matrix_before'')
       (Call (Name ''confusion_matrix'') [Name ''y_test'', Name ''y_pred''] []),
     Expr
       (Call (Name ''print'')
          [Constant (Str (''Confusion matrix before Equalized Odds post-processing:'' @ [CHR 0x0A])),
           Name ''conf_matrix_before'']
          [])]"

text \<open>Cell 17 (its first statement is on line 260 of the file).\<close>

definition cell_17 :: "stmt list" where
  "cell_17 =
    [Assign (Name ''constraint'') (Call (Name ''EqualizedOdds'') [] []),
     Assign (Name ''eps'') (Constant (Num ''0.1'')),
     Assign (Name ''max_iter'') (Constant (Num ''1000'')),
     Assign (Name ''eopp'')
       (Call (Name ''ExponentiatedGradient'')
          []
          [Keyword ''estimator'' (Name ''estimator''),
           Keyword ''constraints'' (Name ''constraint''),
           Keyword ''eps'' (Name ''eps''),
           Keyword ''max_iter'' (Name ''max_iter'')]),
     Expr
       (Call (Attribute (Name ''eopp'') ''fit'')
          [Name ''X_train'', Name ''y_train'']
          [Keyword ''sensitive_features'' (Name ''sensitive_features_train'')])]"

text \<open>Cell 19 (its first statement is on line 305 of the file).\<close>

definition cell_19 :: "stmt list" where
  "cell_19 =
    [Assign (Name ''y_pred_post'')
       (Call (Attribute (Name ''eopp'') ''predict'') [Name ''X_test''] []),
     Assign (Name ''conf_matrix_after'')
       (Call (Name ''confusion_matrix'') [Name ''y_test'', Name ''y_pred_post''] []),
     Expr
       (Call (Name ''print'')
          [Constant (Str (''Confusion matrix after Equalized Odds post-processing:'' @ [CHR 0x0A])),
           Name ''conf_matrix_after'']
          [])]"

text \<open>Cell 22 (its first statement is on line 347 of the file).\<close>

definition cell_22 :: "stmt list" where
  "cell_22 =
    [Assign (Attribute (Name ''dataset_train_copy'') ''scores'')
       (Call (Attribute (Name ''unmitigated_predictor'') ''predict'')
          [Attribute (Name ''dataset_train_copy'') ''features'']
          [])]"

text \<open>Cell 24 (its first statement is on line 374 of the file).\<close>

definition cell_24 :: "stmt list" where
  "cell_24 =
    [Assign (Name ''dataset_train_pred'')
       (Call (Attribute (Name ''dataset_train_copy'') ''copy'') [] []),
     Assign (Attribute (Name ''dataset_train_pred'') ''labels'')
       (Attribute (Name ''dataset_train_copy'') ''scores'')]"

text \<open>Cell 26 (its first statement is on line 402 of the file).\<close>

definition cell_26 :: "stmt list" where
  "cell_26 =
    [Assign (Name ''cpp'')
       (Call (Name ''CalibratedEqOddsPostprocessing'')
          []
          [Keyword ''unprivileged_groups'' (Name ''unprivileged_groups''),
           Keyword ''privileged_groups'' (Name ''privileged_groups''),
           Keyword ''cost_constraint'' (Constant (Str ''fpr''))])]"

text \<open>Cell 28 (its first statement is on line 431 of the file).\<close>

definition cell_28 :: "stmt list" where
  "cell_28 =
    [Assign (Name ''cpp'')
       (Call (Attribute (Name ''cpp'') ''fit'')
          [Name ''dataset_train_copy'', Name ''dataset_train_pred'']
          [])]"

text \<open>Cell 30 (its first statement is on line 458 of the file).\<close>

definition cell_30 :: "stmt list" where
  "cell_30 =
    [Assign (Attribute (Name ''dataset_test_copy'') ''scores'')
       (Call (Attribute (Name ''unmitigated_predictor'') ''predict'')
          [Attribute (Name ''dataset_test_copy'') ''features'']
          [])]"

text \<open>Cell 32 (its first statement is on line 485 of the file).\<close>

definition cell_32 :: "stmt list" where
  "cell_32 =
    [Assign (Name ''dataset_test_pred'')
       (Call (Attribute (Name ''dataset_test_copy'') ''copy'') [] []),
     Assign (Attribute (Name ''dataset_test_pred'') ''labels'')
       (Attribute (Name ''dataset_test_copy'') ''scores'')]"

text \<open>Cell 34 (its first statement is on line 513 of the file).\<close>

definition cell_34 :: "stmt list" where
  "cell_34 =
    [Assign (Name ''dataset_transf_test'')
       (Call (Attribute (Name ''cpp'') ''predict'') [Name ''dataset_test_pred''] [])]"

text \<open>Cell 36 (its first statement is on line 549 of the file).\<close>

definition cell_36 :: "stmt list" where
  "cell_36 =
    [Assign (Name ''y_pred_before'') (Attribute (Name ''dataset_test_copy'') ''labels''),
     Assign (Name ''y_pred_after'') (Attribute (Name ''dataset_transf_test'') ''labels''),
     Expr
       (Call (Name ''print'')
          [Constant (Str ''Accuracy score before post-processing: ''),
           Call (Name ''accuracy_score'')
             [Attribute (Name ''dataset_test_copy'') ''labels'', Name ''y_pred_before'']
             []]
          []),
     Expr
       (Call (Name ''print'')
          [Constant (Str ''Accuracy score after post-processing: ''),
           Call (Name ''accuracy_score'')
             [Attribute (Name ''dataset_test_copy'') ''labels'', Name ''y_pred_after'']
             []]
          [])]"

text \<open>Cell 39 (its first statement is on line 591 of the file).\<close>

definition cell_39 :: "stmt list" where
  "cell_39 =
    [Expr
       (Call (Attribute (Attribute (Name ''np'') ''random'') ''seed'')
          [Constant (Num ''0'')]
          []),
     Assign (TupleE [Name ''X'', Name ''y''])
       (Call (Name ''make_classification'')
          []
          [Keyword ''n_samples'' (Constant (Num ''500'')),
           Keyword ''n_features'' (Constant (Num ''2'')),
           Keyword ''n_informative'' (Constant (Num ''2'')),
           Keyword ''n_redundant'' (Constant (Num ''0'')),
           Keyword ''weights'' (ListE [Constant (Num ''0.6''), Constant (Num ''0.4'')]),
           Keyword ''random_state'' (Constant (Num ''0''))])]"

text \<open>Cell 41 (its first statement is on line 619 of the file).\<close>

definition cell_41 :: "stmt list" where
  "cell_41 =
    [Assign (TupleE [Name ''X_train'', Name ''X_test'', Name ''y_train'', Name ''y_test''])
       (Call (Name ''train_test_split'')
          [Name ''X'', Name ''y'']
          [Keyword ''test_size'' (Constant (Num ''0.2'')),
           Keyword ''random_state'' (Constant (Num ''0''))]),
     Assign (Name ''sensitive_attr_train'')
       (Call (Attribute (Compare (Subscript (Name ''X_train'') (TupleE [Slice, Constant (Num ''0'')]))
                           ''Gt''
                           (Call (Attribute (Name ''np'') ''median'')
                              [Subscript (Name ''X'') (TupleE [Slice, Constant (Num ''0'')])]
                              [])) ''astype'')
          [Name ''int'']
          []),
     Assign (Name ''sensitive_attr_test'')
       (Call (Attribute (Compare (Subscript (Name ''X_test'') (TupleE [Slice, Constant (Num ''0'')]))
                           ''Gt''
                           (Call (Attribute (Name ''np'') ''median'')
                              [Subscript (Name ''X'') (TupleE [Slice, Constant (Num ''0'')])]
                              [])) ''astype'')
          [Name ''int'']
          [])]"

text \<open>Cell 43 (its first statement is on line 648 of the file).\<close>

definition cell_43 :: "stmt list" where
  "cell_43 =
    [Assign (Name ''df_train'')
       (Call (Attribute (Name ''pd'') ''DataFrame'')
          [Name ''X_train'']
          [Keyword ''columns'' (ListE [Constant (Str ''Income''),
                                        Constant (Str ''Employment Years'')])]),
     Assign (Subscript (Name ''df_train'') (Constant (Str ''Credit Approval'')))
       (Name ''y_train''),
     Assign (Subscript (Name ''df_train'') (Constant (Str ''Income'')))
       (Name ''sensitive_attr_train''),
     Assign (Name ''df_test'')
       (Call (Attribute (Name ''pd'') ''DataFrame'')
          [Name ''X_test'']
          [Keyword ''columns'' (ListE [Constant (Str ''Income''),
                                        Constant (Str ''Employment Years'')])]),
     Assign (Subscript (Name ''df_test'') (Constant (Str ''Credit Approval'')))
       (Name ''y_test''),
     Assign (Subscript (Name ''df_test'') (Constant (Str ''Income'')))
       (Name ''sensitive_attr_test'')]"

text \<open>Cell 45 (its first statement is on line 681 of the file).\<close>

definition cell_45 :: "stmt list" where
  "cell_45 =
    [Assign (Name ''dataset_train'')
       (Call (Name ''BinaryLabelDataset'')
          []
          [Keyword ''df'' (Name ''df_train''),
           Keyword ''label_names'' (ListE [Constant (Str ''Credit Approval'')]),
           Keyword ''protected_attribute_names'' (ListE [Constant (Str ''Income'')]),
           Keyword ''favorable_label'' (Constant (Num ''1'')),
           Keyword ''unfavorable_label'' (Constant (Num ''0''))]),
     Assign (Name ''dataset_test'')
       (Call (Name ''BinaryLabelDataset'')
          []
          [Keyword ''df'' (Name ''df_test''),
           Keyword ''label_names'' (ListE [Constant (Str ''Credit Approval'')]),
           Keyword ''protected_attribute_names'' (ListE [Constant (Str ''Income'')]),
           Keyword ''favorable_label'' (Constant (Num ''1'')),
           Keyword ''unfavorable_label'' (Constant (Num ''0''))])]"

text \<open>Cell 47 (its first statement is on line 709 of the file).\<close>

definition cell_47 :: "stmt list" where
  "cell_47 =
    [Assign (Name ''classifier'')
       (Call (Name ''LogisticRegression'')
          []
          [Keyword ''solver'' (Constant (Str ''liblinear''))]),
     Expr
       (Call (Attribute (Name ''classifier'') ''fit'')
          [Name ''X_train'', Name ''y_train'']
          [])]"

text \<open>Cell 49 (its first statement is on line 737 of the file).\<close>

definition cell_49 :: "stmt list" where
  "cell_49 =
    [Assign (Name ''y_pred_prob'')
       (Subscript (Call (Attribute (Name ''classifier'') ''predict_proba'')
                     [Name ''X_test'']
                     []) (TupleE [Slice, Constant (Num ''1'')]))]"

text \<open>Cell 51 (its first statement is on line 764 of the file).\<close>

definition cell_51 :: "stmt list" where
  "cell_51 =
    [Assign (Name ''dataset_test_pred_prob'')
       (Call (Attribute (Name ''dataset_test'') ''copy'')
          []
          [Keyword ''deepcopy'' (Constant (Bool True))]),
     Assign (Attribute (Name ''dataset_test_pred_prob'') ''scores'')
       (Call (Attribute (Name ''y_pred_prob'') ''reshape'')
          [UnaryOp ''USub'' (Constant (Num ''1'')), Constant (Num ''1'')]
          [])]"

text \<open>Cell 53 (its first statement is on line 792 of the file).\<close>

definition cell_53 :: "stmt list" where
  "cell_53 =
    [Assign (Name ''roc'')
       (Call (Name ''RejectOptionClassification'')
          []
          [Keyword ''unprivileged_groups'' (ListE [DictE [Item (Constant (Str ''Income'')) (Constant (Num ''0''))]]),
           Keyword ''privileged_groups'' (ListE [DictE [Item (Constant (Str ''Income'')) (Constant (Num ''1''))]]),
           Keyword ''low_class_thresh'' (Constant (Num ''0.01'')),
           Keyword ''high_class_thresh'' (Constant (Num ''0.99'')),
           Keyword ''num_class_thresh'' (Constant (Num ''100'')),
           Keyword ''num_ROC_margin'' (Constant (Num ''50'')),
           Keyword ''metric_name'' (Constant (Str ''Statistical parity difference'')),
           Keyword ''metric_ub'' (Constant (Num ''0.05'')),
           Keyword ''metric_lb'' (UnaryOp ''USub'' (Constant (Num ''0.05'')))])]"

text \<open>Cell 55 (its first statement is on line 822 of the file).\<close>

definition cell_55 :: "stmt list" where
  "cell_55 =
    [Assign (Name ''roc'')
       (Call (Attribute (Name ''roc'') ''fit'')
          [Name ''dataset_test'', Name ''dataset_test_pred_prob'']
          []),
     Assign (Name ''dataset_test_pred_transf'')
       (Call (Attribute (Name ''roc'') ''predict'') [Name ''dataset_test_pred_prob''] [])]"

text \<open>Cell 57 (its first statement is on line 859 of the file).\<close>

definition cell_57 :: "stmt list" where
  "cell_57 =
    [Assign (Name ''metric_test_bef'')
       (Call (Name ''BinaryLabelDatasetMetric'')
          [Name ''dataset_test_pred_prob'']
          [Keyword ''unprivileged_groups'' (ListE [DictE [Item (Constant (Str ''Income'')) (Constant (Num ''0''))]]),
           Keyword ''privileged_groups'' (ListE [DictE [Item (Constant (Str ''Income'')) (Constant (Num ''1''))]])]),
     Assign (Name ''metric_test_aft'')
       (Call (Name ''BinaryLabelDatasetMetric'')
          [Name ''dataset_test_pred_transf'']
          [Keyword ''unprivileged_groups'' (ListE [DictE [Item (Constant (Str ''Income'')) (Constant (Num ''0''))]]),
           Keyword ''privileged_groups'' (ListE [DictE [Item (Constant (Str ''Income'')) (Constant (Num ''1''))]])]),
     Expr
       (Call (Name ''print'')
          [Constant (Str ''Statistical parity difference before ROC:''),
           Call (Attribute (Name ''metric_test_bef'') ''statistical_parity_difference'')
             []
             []]
          []),
     Expr
       (Call (Name ''print'')
          [Constant (Str ''Statistical parity difference after ROC:''),
           Call (Attribute (Name ''metric_test_aft'') ''statistical_parity_difference'')
             []
             []]
          [])]"

definition notebook :: "cell list" where
  "notebook =
    [(6, cell_6), (9, cell_9), (11, cell_11), (13, cell_13), (15, cell_15),
     (17, cell_17), (19, cell_19), (22, cell_22), (24, cell_24), (26, cell_26),
     (28, cell_28), (30, cell_30), (32, cell_32), (34, cell_34), (36, cell_36),
     (39, cell_39), (41, cell_41), (43, cell_43), (45, cell_45), (47, cell_47),
     (49, cell_49), (51, cell_51), (53, cell_53), (55, cell_55), (57, cell_57)]"

section \<open>The CalibratedEqOddsPostprocessing section\<close>

text \<open>The section is the code cells 22 to 36, under the heading of cell 20.\<close>

definition ceop_section :: "cell list" where
  "ceop_section = filter (\<lambda>(i, ss). 22 \<le> i \<and> i \<le> 36) notebook"

text \<open>Every name a cell reads: those of its right-hand sides and expression statements, and
  the objects of its attribute and subscript targets.\<close>

fun target_loads :: "expr \<Rightarrow> string list" and target_loads_all :: "expr list \<Rightarrow> string list" where
  "target_loads (Name n) = []"
| "target_loads (Attribute e a) = loads e"
| "target_loads (Subscript e i) = loads e @ loads i"
| "target_loads (TupleE ts) = target_loads_all ts"
| "target_loads (ListE ts) = target_loads_all ts"
| "target_loads (Constant c) = []"
| "target_loads (Call f args kws) = []"
| "target_loads (DictE items) = []"
| "target_loads Slice = []"
| "target_loads (Compare l opr r) = []"
| "target_loads (UnaryOp opr e) = []"
| "target_loads_all [] = []"
| "target_loads_all (t # ts) = target_loads t @ target_loads_all ts"

fun reads :: "stmt \<Rightarrow> string list" where
  "reads (Import m a) = []"
| "reads (ImportFrom m ns) = []"
| "reads (Assign target v) = loads v @ target_loads target"
| "reads (Expr e) = loads e"

definition read_names :: "cell list \<Rightarrow> string list" where
  "read_names cs = concat (map (\<lambda>(i, ss). concat (map reads ss)) cs)"

definition undefined_names :: "string list" where
  "undefined_names =
    [''dataset_train_copy'', ''unprivileged_groups'', ''privileged_groups'',
     ''CalibratedEqOddsPostprocessing'', ''accuracy_score'']"

text \<open>The names that can be bound outside the section: the builtins and what the statements
  of the other cells bind.\<close>

definition outside_names :: "string list" where
  "outside_names =
     builtins @ bound_names (filter (\<lambda>(i, ss). \<not> (22 \<le> i \<and> i \<le> 36)) notebook)"

text \<open>A statement is blocked in a set of names when the expression it evaluates first reads a
  name outside the set.\<close>

fun blocked :: "string list \<Rightarrow> stmt \<Rightarrow> bool" where
  "blocked names (Assign target v) = list_ex (\<lambda>n. n \<notin> set names) (loads v)"
| "blocked names (Expr e) = list_ex (\<lambda>n. n \<notin> set names) (loads e)"
| "blocked names (Import m a) = False"
| "blocked names (ImportFrom m ns) = False"

section \<open>Cell 36: the accuracy comparison\<close>

text \<open>
  The cell reads two dataset objects from the kernel's namespace and prints two accuracy
  scores:
  \<^verbatim>\<open>
  y_pred_before = dataset_test_copy.labels
  y_pred_after = dataset_transf_test.labels
  print("Accuracy score before post-processing: ",
        accuracy_score(dataset_test_copy.labels, y_pred_before))
  print("Accuracy score after post-processing: ",
        accuracy_score(dataset_test_copy.labels, y_pred_after))
  \<close>
  An assignment binds a name to the object itself, not to a copy, so the arrays live in a
  heap and the namespace holds their addresses. A dataset object is the pair of arrays
  the section reads and writes, \<^verbatim>\<open>labels\<close> and \<^verbatim>\<open>scores\<close>. A label is the number AIF360
  stores for an instance's class (the favourable or the unfavourable label).
\<close>

type_synonym ref = nat

type_synonym label = int

record dataset =
  labels :: ref
  scores :: ref

datatype score = Score rat | NaN

text \<open>
  \<^verbatim>\<open>accuracy_score\<close> is scikit-learn's (\<^verbatim>\<open>sklearn.metrics\<close>); the notebook calls it and
  does not define it. As the library documents it: the fraction of positions at which the
  two label arrays agree; \<^verbatim>\<open>ValueError\<close> when the arrays differ in length; the mean of an
  empty array, \<^verbatim>\<open>nan\<close>, when there is no sample.
\<close>

definition accuracy_score :: "label list \<Rightarrow> label list \<Rightarrow> py_error + score" where
  "accuracy_score y_true y_pred =
     (if length y_true \<noteq> length y_pred then Inl ValueError
      else if y_true = [] then Inr NaN
      else Inr (Score (of_nat (length (filter (\<lambda>(t, p). t = p) (zip y_true y_pred)))
                        / of_nat (length y_true))))"

text \<open>The part of the kernel's state the cell touches: the heap of arrays, the two
  datasets it reads, the two names it binds (\<open>None\<close> while unbound) and what it prints.\<close>

record kernel =
  heap :: "ref \<Rightarrow> label list"
  dataset_test_copy :: dataset
  dataset_transf_test :: dataset
  y_pred_before :: "ref option"
  y_pred_after :: "ref option"
  stdout :: "(string \<times> score) list"

definition print_score :: "string \<Rightarrow> score \<Rightarrow> kernel \<Rightarrow> kernel" where
  "print_score msg v k = k\<lparr>stdout := stdout k @ [(msg, v)]\<rparr>"

text \<open>The four statements in order. An exception ends the cell and keeps what was bound
  and printed before it.\<close>

definition run_cell_36 :: "kernel \<Rightarrow> py_error option \<times> kernel" where
  "run_cell_36 k =
     (let k1 = k\<lparr>y_pred_before := Some (labels (dataset_test_copy k))\<rparr>;
          k2 = k1\<lparr>y_pred_after := Some (labels (dataset_transf_test k1))\<rparr>
      in case y_pred_before k2 of
           None \<Rightarrow> (Some (NameError ''y_pred_before''), k2)
         | Some before_ref \<Rightarrow>
       (case accuracy_score (heap k2 (labels (dataset_test_copy k2))) (heap k2 before_ref) of
           Inl err \<Rightarrow> (Some err, k2)
         | Inr before \<Rightarrow>
       (let k3 = print_score ''Accuracy score before post-processing: '' before k2
        in case y_pred_after k3 of
           None \<Rightarrow> (Some (NameError ''y_pred_after''), k3)
         | Some after_ref \<Rightarrow>
       (case accuracy_score (heap k3 (labels (dataset_test_copy k3))) (heap k3 after_ref) of
           Inl err \<Rightarrow> (Some err, k3)
         | Inr after \<Rightarrow>
             (None, print_score ''Accuracy score after post-processing: '' after k3)))))"

section \<open>Cell 11: the two train/test splits\<close>

text \<open>
  \<^verbatim>\<open>
  X_train, X_test, y_train, y_test, sensitive_features_train, sensitive_features_test =
      train_test_split(X, y, sensitive_features, test_size=0.2, random_state=42)

  test = train_test_split(X, y, sensitive_features, test_size=0.2, random_state=42)
  \<close>
  \<^verbatim>\<open>train_test_split\<close> is scikit-learn's (\<^verbatim>\<open>sklearn.model_selection\<close>); the notebook calls
  it and does not define it. It is modelled as the library documents it, over NumPy's
  random generators, which stay abstract: a generator state of any type \<open>'g\<close>, the
  constructor \<^verbatim>\<open>RandomState(seed)\<close> and the method \<^verbatim>\<open>permutation(n)\<close>, which returns the
  shuffled indices and the generator's next state.
\<close>

record 'g numpy_random =
  RandomState :: "int \<Rightarrow> 'g"
  permutation :: "'g \<Rightarrow> nat \<Rightarrow> nat list \<times> 'g"

text \<open>The \<^verbatim>\<open>random_state\<close> argument: \<^verbatim>\<open>None\<close> or an integer seed.\<close>

datatype random_state = NoSeed | Seed int

text \<open>
  \<^verbatim>\<open>check_random_state\<close>: without a seed the process-wide generator behind
  \<^verbatim>\<open>np.random.seed\<close> is used and advanced; with an integer seed a fresh generator is made
  from the seed and the process-wide one is left alone. The result is the generator to
  draw from and the function that puts the process-wide generator back.
\<close>

fun check_random_state ::
  "'g numpy_random \<Rightarrow> random_state \<Rightarrow> 'g \<Rightarrow> 'g \<times> ('g \<Rightarrow> 'g)" where
  "check_random_state np NoSeed global = (global, \<lambda>g'. g')"
| "check_random_state np (Seed s) global = (RandomState np s, \<lambda>g'. global)"

text \<open>An array is one- or two-dimensional and is indexed along its first axis.\<close>

datatype ndarray = Vec "rat list" | Mat "rat list list"

fun num_samples :: "ndarray \<Rightarrow> nat" where
  "num_samples (Vec xs) = length xs"
| "num_samples (Mat rows) = length rows"

text \<open>Indexing with a list of indices; NumPy raises \<^verbatim>\<open>IndexError\<close> on an index out of
  bounds.\<close>

fun safe_indexing :: "ndarray \<Rightarrow> nat list \<Rightarrow> py_error + ndarray" where
  "safe_indexing (Vec xs) idx =
     (if list_all (\<lambda>i. i < length xs) idx then Inr (Vec (map (\<lambda>i. xs ! i) idx))
      else Inl IndexError)"
| "safe_indexing (Mat rows) idx =
     (if list_all (\<lambda>i. i < length rows) idx then Inr (Mat (map (\<lambda>i. rows ! i) idx))
      else Inl IndexError)"

text \<open>Each array's training part and then its test part, array by array.\<close>

fun index_all :: "ndarray list \<Rightarrow> nat list \<Rightarrow> nat list \<Rightarrow> py_error + ndarray list" where
  "index_all [] train test = Inr []"
| "index_all (a # as) train test =
     (case safe_indexing a train of
        Inl err \<Rightarrow> Inl err
      | Inr a_train \<Rightarrow>
          (case safe_indexing a test of
             Inl err \<Rightarrow> Inl err
           | Inr a_test \<Rightarrow>
               (case index_all as train test of
                  Inl err \<Rightarrow> Inl err
                | Inr rest \<Rightarrow> Inr (a_train # a_test # rest))))"

text \<open>\<^verbatim>\<open>check_consistent_length\<close>: all arrays have the first array's number of samples.\<close>

definition consistent_length :: "ndarray list \<Rightarrow> bool" where
  "consistent_length arrays = list_all (\<lambda>a. num_samples a = num_samples (hd arrays)) arrays"

text \<open>
  \<^verbatim>\<open>_validate_shuffle_split\<close> for a fractional \<^verbatim>\<open>test_size\<close> and no \<^verbatim>\<open>train_size\<close>: the
  fraction lies strictly between 0 and 1, the test part has \<open>\<lceil>test_size \<sdot> n\<rceil>\<close> samples and
  the training part the rest, which must not be empty. The result is
  \<open>(n_train, n_test)\<close>.
\<close>

definition validate_shuffle_split :: "nat \<Rightarrow> rat \<Rightarrow> py_error + nat \<times> nat" where
  "validate_shuffle_split n_samples test_size =
     (if test_size \<le> 0 \<or> 1 \<le> test_size then Inl ValueError
      else
        (let n_test = nat \<lceil>test_size * of_nat n_samples\<rceil>;
             n_train = n_samples - n_test
         in if n_train = 0 then Inl ValueError else Inr (n_train, n_test)))"

text \<open>\<^verbatim>\<open>ShuffleSplit\<close>: the first \<open>n_test\<close> indices of one permutation are the test part, the
  following \<open>n_train\<close> the training part. The result is \<open>((train, test), rng')\<close>.\<close>

definition shuffle_split ::
  "'g numpy_random \<Rightarrow> 'g \<Rightarrow> nat \<Rightarrow> nat \<Rightarrow> nat \<Rightarrow> (nat list \<times> nat list) \<times> 'g" where
  "shuffle_split np rng n_samples n_train n_test =
     (case permutation np rng n_samples of
        (perm, rng') \<Rightarrow> ((take n_train (drop n_test perm), take n_test perm), rng'))"

text \<open>
  \<^verbatim>\<open>train_test_split(*arrays, test_size, random_state)\<close> with shuffling and no
  stratification, as the notebook calls it. The second component is the process-wide
  generator after the call.
\<close>

definition train_test_split ::
  "'g numpy_random \<Rightarrow> ndarray list \<Rightarrow> rat \<Rightarrow> random_state \<Rightarrow> 'g
     \<Rightarrow> (py_error + ndarray list) \<times> 'g" where
  "train_test_split np arrays test_size random_state global =
     (if arrays = [] then (Inl ValueError, global)
      else if \<not> consistent_length arrays then (Inl ValueError, global)
      else
        (case validate_shuffle_split (num_samples (hd arrays)) test_size of
           Inl err \<Rightarrow> (Inl err, global)
         | Inr (n_train, n_test) \<Rightarrow>
             (case check_random_state np random_state global of
                (rng, put_back) \<Rightarrow>
                  (case shuffle_split np rng (num_samples (hd arrays)) n_train n_test of
                     ((train, test), rng') \<Rightarrow>
                       (index_all arrays train test, put_back rng')))))"

text \<open>The names the cell binds.\<close>

record split_vars =
  X_train :: ndarray
  X_test :: ndarray
  y_train :: ndarray
  y_test :: ndarray
  sensitive_features_train :: ndarray
  sensitive_features_test :: ndarray
  test :: "ndarray list"

text \<open>Unpacking a list into six names: Python raises \<^verbatim>\<open>ValueError\<close> when the list has
  another length.\<close>

fun unpack6 :: "'a list \<Rightarrow> py_error + 'a \<times> 'a \<times> 'a \<times> 'a \<times> 'a \<times> 'a" where
  "unpack6 [a, b, c, d, e, f] = Inr (a, b, c, d, e, f)"
| "unpack6 xs = Inl ValueError"

text \<open>
  The cell, given the arrays \<^verbatim>\<open>X\<close>, \<^verbatim>\<open>y\<close> and \<^verbatim>\<open>sensitive_features\<close> of cell 9 and the
  process-wide generator. The first statement unpacks the returned list into six names;
  the second binds the whole list of the second call to \<^verbatim>\<open>test\<close>.
\<close>

definition run_cell_11 ::
  "'g numpy_random \<Rightarrow> ndarray \<Rightarrow> ndarray \<Rightarrow> ndarray \<Rightarrow> 'g \<Rightarrow> py_error + split_vars \<times> 'g" where
  "run_cell_11 np X y sensitive_features global =
     (case train_test_split np [X, y, sensitive_features] (2 / 10) (Seed 42) global of
        (Inl err, g1) \<Rightarrow> Inl err
      | (Inr r1, g1) \<Rightarrow>
          (case unpack6 r1 of
             Inl err \<Rightarrow> Inl err
           | Inr (a, b, c, d, e, f) \<Rightarrow>
               (case train_test_split np [X, y, sensitive_features] (2 / 10) (Seed 42) g1 of
                  (Inl err, g2) \<Rightarrow> Inl err
                | (Inr r2, g2) \<Rightarrow>
                    Inr (\<lparr>X_train = a, X_test = b, y_train = c, y_test = d,
                          sensitive_features_train = e, sensitive_features_test = f,
                          test = r2\<rparr>, g2))))"

text \<open>A small generator for the examples: its state is a counter, and a permutation of
  \<open>n\<close> indices is the identity rotated by the counter.\<close>

definition toy_random :: "nat numpy_random" where
  "toy_random =
     \<lparr>RandomState = (\<lambda>seed. nat \<bar>seed\<bar>),
      permutation = (\<lambda>g n. (rotate g [0..<n], Suc g))\<rparr>"

section \<open>The mixing rule of the equalized-odds calibrator\<close>

text \<open>
  The notebook holds no code of the calibrator the specification describes: it imports
  fairlearn's \<^verbatim>\<open>ThresholdOptimizer\<close> (line 85) and never uses it, and the mixing of
  predictions happens inside the libraries it calls. The definitions of this section
  follow the specification's data model (section 3) and step 2 of its \<^verbatim>\<open>fit\<close>.
\<close>

text \<open>Modelled from the spec: \<^verbatim>\<open>GroupConfusionStats\<close>, the confusion counts of one group over
  a labelled calibration set; no code of the repository computes them per group.\<close>

record GroupConfusionStats =
  truePositive :: nat
  falsePositive :: nat
  trueNegative :: nat
  falseNegative :: nat

text \<open>Modelled from the spec: the derived rate \<open>FPR = FP / (FP + TN)\<close>; the notebook derives no
  rate from its confusion matrices.\<close>

definition FPR :: "GroupConfusionStats \<Rightarrow> real" where
  "FPR s = real (falsePositive s) / real (falsePositive s + trueNegative s)"

text \<open>Modelled from the spec: the derived rate \<open>TPR = TP / (TP + FN)\<close>; the notebook derives no
  rate from its confusion matrices.\<close>

definition TPR :: "GroupConfusionStats \<Rightarrow> real" where
  "TPR s = real (truePositive s) / real (truePositive s + falseNegative s)"

text \<open>Modelled from the spec: \<^verbatim>\<open>MixingRule\<close>, a pair of probabilities: \<open>p1\<close> of flipping a
  raw-negative prediction to positive and \<open>p0\<close> of flipping a raw-positive prediction to
  negative; the repository has no such type.\<close>

record MixingRule =
  p0 :: real
  p1 :: real

text \<open>Modelled from the spec: the invariant \<open>0 \<le> p0, p1 \<le> 1\<close> of a \<^verbatim>\<open>MixingRule\<close>, missing
  from the repository with the type.\<close>

definition valid_rule :: "MixingRule \<Rightarrow> bool" where
  "valid_rule r = (0 \<le> p0 r \<and> p0 r \<le> 1 \<and> 0 \<le> p1 r \<and> p1 r \<le> 1)"

text \<open>Modelled from the spec: the four corner strategies of step 2 (always-0, always-1,
  identity, invert); the repository does not implement them.\<close>

datatype corner = Always0 | Always1 | Identity | Invert

text \<open>Modelled from the spec: the label a corner strategy gives an instance, from its raw
  label (\<open>True\<close> is the positive class); missing from the repository.\<close>

fun corner_label :: "corner \<Rightarrow> bool \<Rightarrow> bool" where
  "corner_label Always0 raw = False"
| "corner_label Always1 raw = True"
| "corner_label Identity raw = raw"
| "corner_label Invert raw = (\<not> raw)"

text \<open>Modelled from the spec: a corner strategy as a \<^verbatim>\<open>MixingRule\<close>: always-0 flips every
  positive, always-1 every negative, identity nothing, invert everything; missing from the
  repository.\<close>

fun corner_rule :: "corner \<Rightarrow> MixingRule" where
  "corner_rule Always0 = \<lparr>p0 = 1, p1 = 0\<rparr>"
| "corner_rule Always1 = \<lparr>p0 = 0, p1 = 1\<rparr>"
| "corner_rule Identity = \<lparr>p0 = 0, p1 = 0\<rparr>"
| "corner_rule Invert = \<lparr>p0 = 1, p1 = 1\<rparr>"

text \<open>Modelled from the spec: the probability that a rule's adjusted label is positive,
  given the raw label: a raw positive stays positive unless flipped (\<open>1 - p0\<close>), a raw
  negative becomes positive when flipped (\<open>p1\<close>); missing from the repository.\<close>

definition positive_prob :: "MixingRule \<Rightarrow> bool \<Rightarrow> real" where
  "positive_prob r raw = (if raw then 1 - p0 r else p1 r)"

text \<open>Modelled from the spec: the false-positive rate of the adjusted predictions of a group,
  in expectation over the random flips: of the group's negatives, \<open>FP\<close> are raw positives
  and \<open>TN\<close> raw negatives; missing from the repository.\<close>

definition adjusted_FPR :: "GroupConfusionStats \<Rightarrow> MixingRule \<Rightarrow> real" where
  "adjusted_FPR s r =
     (real (falsePositive s) * positive_prob r True
        + real (trueNegative s) * positive_prob r False)
     / real (falsePositive s + trueNegative s)"

text \<open>Modelled from the spec: the true-positive rate of the adjusted predictions of a group,
  in expectation over the random flips: of the group's positives, \<open>TP\<close> are raw positives
  and \<open>FN\<close> raw negatives; missing from the repository.\<close>

definition adjusted_TPR :: "GroupConfusionStats \<Rightarrow> MixingRule \<Rightarrow> real" where
  "adjusted_TPR s r =
     (real (truePositive s) * positive_prob r True
        + real (falseNegative s) * positive_prob r False)
     / real (truePositive s + falseNegative s)"

text \<open>Modelled from the spec: the operating point \<open>(FPR, TPR)\<close> of a group under a rule;
  missing from the repository.\<close>

definition operating_point :: "GroupConfusionStats \<Rightarrow> MixingRule \<Rightarrow> real \<times> real" where
  "operating_point s r = (adjusted_FPR s r, adjusted_TPR s r)"

text \<open>Modelled from the spec: the \<open>(FPR, TPR)\<close> pair the specification gives each corner:
  always-0 \<open>(0, 0)\<close>, always-1 \<open>(1, 1)\<close>, identity \<open>(FPR\<^sub>g, TPR\<^sub>g)\<close>, invert
  \<open>(1 - FPR\<^sub>g, 1 - TPR\<^sub>g)\<close>; missing from the repository.\<close>

fun corner_point :: "GroupConfusionStats \<Rightarrow> corner \<Rightarrow> real \<times> real" where
  "corner_point s Always0 = (0, 0)"
| "corner_point s Always1 = (1, 1)"
| "corner_point s Identity = (FPR s, TPR s)"
| "corner_point s Invert = (1 - FPR s, 1 - TPR s)"

text \<open>Modelled from the spec: randomized mixing of two corners with weight \<open>\<lambda>\<close>: each instance
  takes corner \<open>a\<close>'s label with probability \<open>\<lambda>\<close> and corner \<open>b\<close>'s otherwise, so the flip
  probabilities are the weighted means of the corners'; missing from the repository.\<close>

definition mix :: "corner \<Rightarrow> corner \<Rightarrow> real \<Rightarrow> MixingRule" where
  "mix a b w =
     \<lparr>p0 = w * p0 (corner_rule a) + (1 - w) * p0 (corner_rule b),
      p1 = w * p1 (corner_rule a) + (1 - w) * p1 (corner_rule b)\<rparr>"

text \<open>Modelled from the spec: the operating points a group can reach, one for each valid
  mixing rule; missing from the repository.\<close>

definition reachable :: "GroupConfusionStats \<Rightarrow> (real \<times> real) set" where
  "reachable s = {operating_point s r | r. valid_rule r}"

text \<open>Modelled from the spec: the convex hull of four points of the plane, all their
  weighted means with non-negative weights that sum to 1; missing from the repository.\<close>

definition convex_hull4 ::
  "real \<times> real \<Rightarrow> real \<times> real \<Rightarrow> real \<times> real \<Rightarrow> real \<times> real \<Rightarrow> (real \<times> real) set" where
  "convex_hull4 a b c d =
     {(w1 * fst a + w2 * fst b + w3 * fst c + w4 * fst d,
       w1 * snd a + w2 * snd b + w3 * snd c + w4 * snd d) | w1 w2 w3 w4.
      0 \<le> w1 \<and> 0 \<le> w2 \<and> 0 \<le> w3 \<and> 0 \<le> w4 \<and> w1 + w2 + w3 + w4 = 1}"

section \<open>Example inputs\<close>

text \<open>A kernel state for cell 36: five test instances with labels \<open>1, 0, 0, 1, 1\<close> at
  address 0, post-processed labels \<open>0, 0, 1, 1, 0\<close> at address 1, nothing printed yet.\<close>

definition example_kernel :: kernel where
  "example_kernel =
     \<lparr>heap = (\<lambda>r. if r = 0 then [1, 0, 0, 1, 1] else if r = 1 then [0, 0, 1, 1, 0] else []),
      dataset_test_copy = \<lparr>labels = 0, scores = 2\<rparr>,
      dataset_transf_test = \<lparr>labels = 1, scores = 3\<rparr>,
      y_pred_before = None,
      y_pred_after = None,
      stdout = []\<rparr>"

text \<open>Arrays for cell 11: five samples with two features, their labels and their sensitive
  feature (the first column of \<open>example_X\<close>, as in cell 9).\<close>

definition example_X :: ndarray where
  "example_X = Mat [[1, 2], [3, 4], [5, 6], [7, 8], [9, 10]]"

definition example_y :: ndarray where
  "example_y = Vec [0, 1, 0, 1, 1]"

definition example_sensitive :: ndarray where
  "example_sensitive = Vec [1, 3, 5, 7, 9]"

text \<open>The bindings cell 11 makes on these arrays with the toy generator: seed 42 rotates the
  five indices by two places, the first index is the test part.\<close>

definition example_split :: split_vars where
  "example_split =
     \<lparr>X_train = Mat [[7, 8], [9, 10], [1, 2], [3, 4]], X_test = Mat [[5, 6]],
      y_train = Vec [1, 1, 0, 1], y_test = Vec [0],
      sensitive_features_train = Vec [7, 9, 1, 3], sensitive_features_test = Vec [5],
      test = [Mat [[7, 8], [9, 10], [1, 2], [3, 4]], Mat [[5, 6]],
              Vec [1, 1, 0, 1], Vec [0], Vec [7, 9, 1, 3], Vec [5]]\<rparr>"

text \<open>Confusion counts of a group for the mixing rule: 7 true positives, 5 false positives,
  5 true negatives and 3 false negatives, so \<open>FPR = 1/2\<close> and \<open>TPR = 7/10\<close>.\<close>

definition example_stats :: GroupConfusionStats where
  "example_stats =
     \<lparr>truePositive = 7, falsePositive = 5, trueNegative = 5, falseNegative = 3\<rparr>"

section \<open>Results\<close>

subsection \<open>The section cannot run\<close>

lemma run_all_notebook:
  "run_all (set builtins) notebook = Some (22, NameError ''dataset_train_copy'')"
  by code_simp

lemma run_each_ceop_section:
  "filter (\<lambda>(i, r). 22 \<le> i \<and> i \<le> 36) (run_each (set builtins) notebook) =
     [(22, Some (NameError ''dataset_train_copy'')),
      (24, Some (NameError ''dataset_train_copy'')),
      (26, Some (NameError ''CalibratedEqOddsPostprocessing'')),
      (28, Some (NameError ''cpp'')),
      (30, Some (NameError ''dataset_test_copy'')),
      (32, Some (NameError ''dataset_test_copy'')),
      (34, Some (NameError ''cpp'')),
      (36, Some (NameError ''dataset_test_copy''))]"
  by code_simp

lemma undefined_names_unbound:
  "filter (\<lambda>n. n \<in> set builtins \<union> set (bound_names notebook)) undefined_names = []"
  by code_simp

lemma undefined_names_read:
  "filter (\<lambda>n. n \<in> set (read_names ceop_section)) undefined_names = undefined_names"
  by code_simp

text \<open>
  Claim C9. Run from a fresh kernel in cell order, the notebook stops in cell 22, the first
  code cell of the CalibratedEqOddsPostprocessing section, with
  \<^verbatim>\<open>NameError: name 'dataset_train_copy' is not defined\<close>: the constructor (cell 26),
  \<^verbatim>\<open>cpp.fit\<close> (cell 28) and \<^verbatim>\<open>cpp.predict\<close> (cell 34) are never reached. Run cell by cell
  past the errors, every code cell of the section raises \<^verbatim>\<open>NameError\<close> before its call is
  made. The five names \<^verbatim>\<open>dataset_train_copy\<close>, \<^verbatim>\<open>unprivileged_groups\<close>, \<^verbatim>\<open>privileged_groups\<close>,
  \<^verbatim>\<open>CalibratedEqOddsPostprocessing\<close> and \<^verbatim>\<open>accuracy_score\<close> are read in the section, and no
  statement of the whole file binds or imports any of them, nor are they builtins.
\<close>

theorem ceop_section_raises_NameError:
  "run_all (set builtins) notebook = Some (22, NameError ''dataset_train_copy'')
   \<and> filter (\<lambda>(i, r). 22 \<le> i \<and> i \<le> 36) (run_each (set builtins) notebook) =
       [(22, Some (NameError ''dataset_train_copy'')),
        (24, Some (NameError ''dataset_train_copy'')),
        (26, Some (NameError ''CalibratedEqOddsPostprocessing'')),
        (28, Some (NameError ''cpp'')),
        (30, Some (NameError ''dataset_test_copy'')),
        (32, Some (NameError ''dataset_test_copy'')),
        (34, Some (NameError ''cpp'')),
        (36, Some (NameError ''dataset_test_copy''))]
   \<and> filter (\<lambda>n. n \<in> set builtins \<union> set (bound_names notebook)) undefined_names = []
   \<and> filter (\<lambda>n. n \<in> set (read_names ceop_section)) undefined_names = undefined_names"
  using run_all_notebook run_each_ceop_section undefined_names_unbound undefined_names_read
  by blast

subsection \<open>The section cannot run in any order\<close>

text \<open>A statement that succeeds adds exactly the names it binds.\<close>

lemma store_binds:
  "store t env = Inr env' \<Longrightarrow> env' = env \<union> set (targets t)"
  "store_all ts env = Inr env' \<Longrightarrow> env' = env \<union> set (targets_all ts)"
  by (induction t env and ts env arbitrary: env' and env' rule: store_store_all.induct)
     (auto split: option.splits sum.splits)

lemma exec_stmt_binds: "exec_stmt env s = Inr env' \<Longrightarrow> env' = env \<union> set (binds s)"
  by (cases "(env, s)" rule: exec_stmt.cases) (auto split: option.splits dest: store_binds)

lemma exec_cell_binds: "snd (exec_cell env ss) \<subseteq> env \<union> set (concat (map binds ss))"
proof (induction ss arbitrary: env)
  case Nil
  show ?case by simp
next
  case (Cons s ss)
  show ?case
  proof (cases "exec_stmt env s")
    case (Inl err)
    then show ?thesis by simp
  next
    case (Inr env')
    with Cons [of env'] exec_stmt_binds [OF Inr] show ?thesis by auto
  qed
qed

lemma first_unbound_Some:
  assumes "list_ex (\<lambda>n. n \<notin> names) ns" and "env \<subseteq> names"
  shows "\<exists>n. first_unbound env ns = Some n"
proof -
  from assms obtain n where "n \<in> set ns" "n \<notin> env" by (auto simp: list_ex_iff)
  then have "find (\<lambda>n. n \<notin> env) ns \<noteq> None" by (auto simp: find_None_iff)
  then show ?thesis by (auto simp: first_unbound_def)
qed

lemma blocked_raises:
  assumes "blocked names s" and "env \<subseteq> set names"
  shows "\<exists>n. exec_stmt env s = Inl (NameError n)"
proof (cases s)
  case (Assign target v)
  with assms first_unbound_Some [of "set names" "loads v" env] show ?thesis
    by (auto simp: eval_expr_def)
next
  case (Expr e)
  with assms first_unbound_Some [of "set names" "loads e" env] show ?thesis
    by (auto simp: eval_expr_def)
qed (use assms in auto)

lemma section_cells_blocked:
  "list_all (\<lambda>(i, ss). ss \<noteq> [] \<and> blocked outside_names (hd ss)) ceop_section"
  by code_simp

lemma section_cell_raises:
  assumes "(i, ss) \<in> set notebook" and "22 \<le> i \<and> i \<le> 36" and "env \<subseteq> set outside_names"
  shows "\<exists>n. exec_cell env ss = (Some (NameError n), env)"
proof -
  from assms(1,2) have "(i, ss) \<in> set ceop_section" by (simp add: ceop_section_def)
  with section_cells_blocked have "ss \<noteq> []" and b: "blocked outside_names (hd ss)"
    by (auto simp: list_all_iff)
  then obtain s rest where ss: "ss = s # rest" by (cases ss) auto
  from blocked_raises [OF _ assms(3)] b ss obtain n where "exec_stmt env s = Inl (NameError n)"
    by auto
  then show ?thesis by (auto simp: ss)
qed

lemma other_cell_keeps:
  assumes "(i, ss) \<in> set notebook" and "\<not> (22 \<le> i \<and> i \<le> 36)" and "env \<subseteq> set outside_names"
  shows "snd (exec_cell env ss) \<subseteq> set outside_names"
proof -
  from assms(1,2) have "set (concat (map binds ss)) \<subseteq> set outside_names"
    by (fastforce simp: outside_names_def bound_names_def)
  with exec_cell_binds [of env ss] assms(3) show ?thesis by blast
qed

lemma section_raises_in_any_order_aux:
  assumes "set cs \<subseteq> set notebook" and "env \<subseteq> set outside_names"
  shows "\<forall>(i, r) \<in> set (run_each env cs). 22 \<le> i \<and> i \<le> 36 \<longrightarrow> (\<exists>n. r = Some (NameError n))"
  using assms
proof (induction cs arbitrary: env)
  case Nil
  show ?case by simp
next
  case (Cons c cs)
  obtain i ss where c: "c = (i, ss)" by (cases c)
  from Cons.prems c have mem: "(i, ss) \<in> set notebook" and rest: "set cs \<subseteq> set notebook"
    by auto
  show ?case
  proof (cases "22 \<le> i \<and> i \<le> 36")
    case True
    from section_cell_raises [OF mem True Cons.prems(2)]
    obtain n where e: "exec_cell env ss = (Some (NameError n), env)" ..
    from Cons.IH [OF rest Cons.prems(2)] e show ?thesis by (simp add: c)
  next
    case False
    obtain r env' where e: "exec_cell env ss = (r, env')" by (cases "exec_cell env ss")
    from other_cell_keeps [OF mem False Cons.prems(2)] e
    have "env' \<subseteq> set outside_names" by simp
    from Cons.IH [OF rest this] False show ?thesis
      by (auto simp: c e)
  qed
qed

text \<open>
  The outcome does not depend on the order: from a fresh kernel, whichever cells of the file
  are run, in whatever order and however often, a code cell of the section raises
  \<^verbatim>\<open>NameError\<close> each time it is run. The output stored with cell 36 (accuracies 1.0 and 0.45)
  cannot come from this file alone.
\<close>

lemma section_raises_in_any_order:
  assumes "set cs \<subseteq> set notebook"
  shows "\<forall>(i, r) \<in> set (run_each (set builtins) cs).
           22 \<le> i \<and> i \<le> 36 \<longrightarrow> (\<exists>n. r = Some (NameError n))"
  using assms by (rule section_raises_in_any_order_aux) (simp add: outside_names_def)

subsection \<open>The accuracy before post-processing\<close>

lemma filter_zip_same: "filter (\<lambda>(t, p). t = p) (zip xs xs) = zip xs xs"
  by (induction xs) auto

lemma accuracy_score_same:
  "accuracy_score x x = (if x = [] then Inr NaN else Inr (Score 1))"
  by (simp add: accuracy_score_def filter_zip_same)

text \<open>
  Claim C8. In cell 36 \<^verbatim>\<open>y_pred_before\<close> is bound to the very array
  \<^verbatim>\<open>dataset_test_copy.labels\<close>, so the first score is \<^verbatim>\<open>accuracy_score(x, x)\<close>: for every
  state of the kernel whose test dataset has at least one instance (whatever the labels,
  the scores of the classifier and the post-processed dataset are), the cell prints
  \<^verbatim>\<open>Accuracy score before post-processing:  1.0\<close>, followed by the second score when
  scikit-learn accepts the post-processed labels.
\<close>

theorem accuracy_before_is_one:
  assumes "heap k (labels (dataset_test_copy k)) \<noteq> []"
  shows "y_pred_before (snd (run_cell_36 k)) = Some (labels (dataset_test_copy k))
    \<and> drop (length (stdout k)) (stdout (snd (run_cell_36 k))) =
        (''Accuracy score before post-processing: '', Score 1) #
        (case accuracy_score (heap k (labels (dataset_test_copy k)))
                             (heap k (labels (dataset_transf_test k))) of
           Inl err \<Rightarrow> []
         | Inr after \<Rightarrow> [(''Accuracy score after post-processing: '', after)])"
  using assms
  by (simp add: run_cell_36_def Let_def print_score_def accuracy_score_same split: sum.split)

text \<open>On the example kernel the cell prints 1.0 and then 0.4: the post-processed labels
  agree with the true ones on two instances of five.\<close>

theorem accuracy_before_is_one_witness:
  "heap example_kernel (labels (dataset_test_copy example_kernel)) \<noteq> []
   \<and> y_pred_before (snd (run_cell_36 example_kernel)) = Some 0
   \<and> stdout (snd (run_cell_36 example_kernel)) =
       [(''Accuracy score before post-processing: '', Score 1),
        (''Accuracy score after post-processing: '', Score (2 / 5))]"
proof -
  have nonempty: "heap example_kernel (labels (dataset_test_copy example_kernel)) \<noteq> []"
    by (simp add: example_kernel_def)
  have after: "accuracy_score (heap example_kernel 0)
      (heap example_kernel (labels (dataset_transf_test example_kernel))) = Inr (Score (2 / 5))"
    by (simp add: example_kernel_def accuracy_score_def)
  have start: "stdout example_kernel = []" "labels (dataset_test_copy example_kernel) = 0"
    by (simp_all add: example_kernel_def)
  from accuracy_before_is_one [OF nonempty] nonempty show ?thesis
    by (simp add: after start)
qed

subsection \<open>The second split\<close>

text \<open>With an integer seed the split does not depend on the process-wide generator and
  leaves it as it was.\<close>

lemma train_test_split_seeded:
  "train_test_split np arrays ts (Seed s) g = (fst (train_test_split np arrays ts (Seed s) g0), g)"
  by (simp add: train_test_split_def split: sum.split prod.split)

text \<open>Without a seed it does: two calls in a row draw different permutations from the toy
  generator.\<close>

lemma train_test_split_unseeded_differs:
  "fst (train_test_split toy_random [example_X] (2 / 10) NoSeed (0::nat))
   \<noteq> fst (train_test_split toy_random [example_X] (2 / 10) NoSeed
         (snd (train_test_split toy_random [example_X] (2 / 10) NoSeed (0::nat))))"
  by code_simp

lemma unpack6_Inr: "unpack6 r = Inr (a, b, c, d, e, f) \<Longrightarrow> r = [a, b, c, d, e, f]"
  by (cases r rule: unpack6.cases) auto

text \<open>
  Claim C10. The two calls of cell 11 have the same arguments and the same integer seed, so
  they return the same list: whenever the cell runs to its end, the list bound to
  \<^verbatim>\<open>test\<close> is, element for element, the six arrays unpacked on the line before, for every
  generator, every input and every state of the process-wide generator, which the cell
  leaves unchanged.
\<close>

theorem second_split_equals_first:
  assumes "run_cell_11 np X y sensitive_features g = Inr (v, g')"
  shows "test v = [X_train v, X_test v, y_train v, y_test v,
                   sensitive_features_train v, sensitive_features_test v] \<and> g' = g"
proof -
  define r where "r = fst (train_test_split np [X, y, sensitive_features] (2 / 10) (Seed 42) g)"
  have call: "train_test_split np [X, y, sensitive_features] (2 / 10) (Seed 42) h = (r, h)" for h
    unfolding r_def by (rule train_test_split_seeded)
  from assms obtain r1 a b c d e f
    where u: "unpack6 r1 = Inr (a, b, c, d, e, f)"
      and v: "v = \<lparr>X_train = a, X_test = b, y_train = c, y_test = d,
                    sensitive_features_train = e, sensitive_features_test = f,
                    test = r1\<rparr>"
      and g: "g' = g"
    unfolding run_cell_11_def call by (auto split: sum.splits)
  from u have "r1 = [a, b, c, d, e, f]" by (rule unpack6_Inr)
  then show ?thesis by (simp add: v g)
qed

lemma safe_indexing_Inr:
  assumes "list_all (\<lambda>i. i < num_samples a) idx"
  shows "\<exists>b. safe_indexing a idx = Inr b"
  using assms by (cases a) simp_all

lemma index_all_Inr:
  assumes "list_all (\<lambda>a. num_samples a = n) arrays"
    and "list_all (\<lambda>i. i < n) ind_train" and "list_all (\<lambda>i. i < n) ind_test"
  shows "\<exists>r. index_all arrays ind_train ind_test = Inr r \<and> length r = 2 * length arrays"
  using assms(1)
proof (induction arrays)
  case Nil
  show ?case by simp
next
  case (Cons a as)
  then have n: "num_samples a = n" and rest: "list_all (\<lambda>a. num_samples a = n) as" by simp_all
  from safe_indexing_Inr [of a ind_train] assms(2) n
  obtain b where b: "safe_indexing a ind_train = Inr b" by auto
  from safe_indexing_Inr [of a ind_test] assms(3) n
  obtain c where c: "safe_indexing a ind_test = Inr c" by auto
  from Cons.IH [OF rest]
  obtain r where "index_all as ind_train ind_test = Inr r" "length r = 2 * length as" by auto
  with b c show ?case by simp
qed

lemma validate_fifth:
  assumes "2 \<le> n"
  shows "\<exists>n_train n_test. validate_shuffle_split n (2 / 10) = Inr (n_train, n_test)"
proof -
  have "\<lceil>(2 / 10 :: rat) * of_nat n\<rceil> \<le> int n - 1"
  proof -
    have "(2 / 10 :: rat) * of_nat n \<le> of_int (int n - 1)"
      using assms by (simp add: field_simps)
    then show ?thesis by (simp only: ceiling_le_iff)
  qed
  then have "nat \<lceil>(2 / 10 :: rat) * of_nat n\<rceil> < n" using assms by linarith
  then show ?thesis by (simp add: validate_shuffle_split_def Let_def)
qed

lemma length6: "length r = 6 \<Longrightarrow> \<exists>a b c d e f. r = [a, b, c, d, e, f]"
  by (auto simp: length_Suc_conv eval_nat_numeral)

text \<open>
  The cell does run to its end: when the three arrays have one length of at least two
  samples (the notebook's have 200) and the seeded generator returns indices below that
  length, both calls return and the process-wide generator is as before.
\<close>

lemma run_cell_11_completes:
  assumes "num_samples y = num_samples X" and "num_samples sensitive_features = num_samples X"
    and "2 \<le> num_samples X"
    and valid: "list_all (\<lambda>i. i < num_samples X) (fst (permutation np (RandomState np 42) (num_samples X)))"
  shows "\<exists>v. run_cell_11 np X y sensitive_features g = Inr (v, g)"
proof -
  let ?arrays = "[X, y, sensitive_features]"
  obtain n_train n_test where val: "validate_shuffle_split (num_samples X) (2 / 10) = Inr (n_train, n_test)"
    using validate_fifth [OF assms(3)] by auto
  obtain perm rng' where p: "permutation np (RandomState np 42) (num_samples X) = (perm, rng')"
    by (cases "permutation np (RandomState np 42) (num_samples X)")
  from valid p have "list_all (\<lambda>i. i < num_samples X) perm" by simp
  then have tr: "list_all (\<lambda>i. i < num_samples X) (take n_train (drop n_test perm))"
    and te: "list_all (\<lambda>i. i < num_samples X) (take n_test perm)"
    by (auto simp: list_all_iff dest: in_set_takeD in_set_dropD)
  have "list_all (\<lambda>a. num_samples a = num_samples X) ?arrays" using assms(1,2) by simp
  from index_all_Inr [OF this tr te] obtain r
    where r: "index_all ?arrays (take n_train (drop n_test perm)) (take n_test perm) = Inr r"
      and "length r = 6" by auto
  then obtain a b c d e f where r6: "r = [a, b, c, d, e, f]" using length6 by blast
  have call: "train_test_split np ?arrays (2 / 10) (Seed 42) h = (Inr r, h)" for h
    using assms(1,2) val
    by (simp add: train_test_split_def consistent_length_def shuffle_split_def p r
        del: index_all.simps)
  show ?thesis unfolding run_cell_11_def call by (simp add: r6)
qed

lemma run_cell_11_example:
  "run_cell_11 toy_random example_X example_y example_sensitive (7::nat)
     = Inr (example_split, 7)"
  by code_simp

text \<open>The cell runs to its end on the example arrays, and \<^verbatim>\<open>test\<close> holds the six parts.\<close>

theorem second_split_equals_first_witness:
  "run_cell_11 toy_random example_X example_y example_sensitive (7::nat)
     = Inr (example_split, 7)
   \<and> test example_split =
       [X_train example_split, X_test example_split, y_train example_split,
        y_test example_split, sensitive_features_train example_split,
        sensitive_features_test example_split]"
  using second_split_equals_first [OF run_cell_11_example] run_cell_11_example by simp

subsection \<open>The operating points a mixing rule reaches\<close>

lemma adjusted_FPR_alt:
  assumes "0 < falsePositive s + trueNegative s"
  shows "adjusted_FPR s r = FPR s * (1 - p0 r) + (1 - FPR s) * p1 r"
proof -
  define D where "D = real (falsePositive s + trueNegative s)"
  have d: "D \<noteq> 0" unfolding D_def using assms by (simp only: of_nat_eq_0_iff)
  have F: "FPR s = real (falsePositive s) / D" by (simp add: FPR_def D_def)
  have "real (trueNegative s) = D - real (falsePositive s)" by (simp add: D_def)
  then have "real (trueNegative s) / D = D / D - real (falsePositive s) / D"
    by (simp only: diff_divide_distrib)
  with d have G: "1 - FPR s = real (trueNegative s) / D" by (simp add: F)
  have "adjusted_FPR s r =
      real (falsePositive s) / D * (1 - p0 r) + real (trueNegative s) / D * p1 r"
    by (simp add: adjusted_FPR_def positive_prob_def D_def add_divide_distrib)
  also have "\<dots> = FPR s * (1 - p0 r) + (1 - FPR s) * p1 r"
    unfolding G unfolding F ..
  finally show ?thesis .
qed

lemma adjusted_TPR_alt:
  assumes "0 < truePositive s + falseNegative s"
  shows "adjusted_TPR s r = TPR s * (1 - p0 r) + (1 - TPR s) * p1 r"
proof -
  define D where "D = real (truePositive s + falseNegative s)"
  have d: "D \<noteq> 0" unfolding D_def using assms by (simp only: of_nat_eq_0_iff)
  have T: "TPR s = real (truePositive s) / D" by (simp add: TPR_def D_def)
  have "real (falseNegative s) = D - real (truePositive s)" by (simp add: D_def)
  then have "real (falseNegative s) / D = D / D - real (truePositive s) / D"
    by (simp only: diff_divide_distrib)
  with d have G: "1 - TPR s = real (falseNegative s) / D" by (simp add: T)
  have "adjusted_TPR s r =
      real (truePositive s) / D * (1 - p0 r) + real (falseNegative s) / D * p1 r"
    by (simp add: adjusted_TPR_def positive_prob_def D_def add_divide_distrib)
  also have "\<dots> = TPR s * (1 - p0 r) + (1 - TPR s) * p1 r"
    unfolding G unfolding T ..
  finally show ?thesis .
qed

text \<open>A rule \<open>(a, b)\<close> is the mean of the four corners with the weights \<open>a (1 - b)\<close>,
  \<open>(1 - a) b\<close>, \<open>(1 - a) (1 - b)\<close> and \<open>a b\<close>; weights \<open>w1, ..., w4\<close> are the rule
  \<open>(w1 + w4, w2 + w4)\<close>.\<close>

lemma rate_mix:
  fixes F :: real
  shows "F * (1 - a) + (1 - F) * b =
    (a * (1 - b)) * 0 + ((1 - a) * b) * 1 + ((1 - a) * (1 - b)) * F + (a * b) * (1 - F)"
  by algebra

lemma rate_unmix:
  fixes F :: real
  assumes "w1 + w2 + w3 + w4 = 1"
  shows "w1 * 0 + w2 * 1 + w3 * F + w4 * (1 - F) =
    F * (1 - (w1 + w4)) + (1 - F) * (w2 + w4)"
proof -
  have w3: "w3 = 1 - w1 - w2 - w4" using assms by simp
  show ?thesis unfolding w3 by (simp add: algebra_simps)
qed

lemma reachable_subset_hull:
  assumes "0 < falsePositive s + trueNegative s" "0 < truePositive s + falseNegative s"
  shows "reachable s \<subseteq> convex_hull4 (0, 0) (1, 1) (FPR s, TPR s) (1 - FPR s, 1 - TPR s)"
proof
  fix x assume "x \<in> reachable s"
  then obtain r where x: "x = operating_point s r" and v: "valid_rule r"
    by (auto simp: reachable_def)
  let ?w1 = "p0 r * (1 - p1 r)" and ?w2 = "(1 - p0 r) * p1 r"
  let ?w3 = "(1 - p0 r) * (1 - p1 r)" and ?w4 = "p0 r * p1 r"
  from v have nn: "0 \<le> ?w1" "0 \<le> ?w2" "0 \<le> ?w3" "0 \<le> ?w4"
    by (simp_all add: valid_rule_def)
  have s1: "?w1 + ?w2 + ?w3 + ?w4 = 1" by algebra
  have "x = (?w1 * 0 + ?w2 * 1 + ?w3 * FPR s + ?w4 * (1 - FPR s),
             ?w1 * 0 + ?w2 * 1 + ?w3 * TPR s + ?w4 * (1 - TPR s))"
    unfolding x operating_point_def adjusted_FPR_alt [OF assms(1)] adjusted_TPR_alt [OF assms(2)]
      rate_mix [of "FPR s"] rate_mix [of "TPR s"] ..
  with nn s1 show "x \<in> convex_hull4 (0, 0) (1, 1) (FPR s, TPR s) (1 - FPR s, 1 - TPR s)"
    unfolding convex_hull4_def by (simp only: fst_conv snd_conv) blast
qed

lemma hull_subset_reachable:
  assumes "0 < falsePositive s + trueNegative s" "0 < truePositive s + falseNegative s"
  shows "convex_hull4 (0, 0) (1, 1) (FPR s, TPR s) (1 - FPR s, 1 - TPR s) \<subseteq> reachable s"
proof
  fix x assume "x \<in> convex_hull4 (0, 0) (1, 1) (FPR s, TPR s) (1 - FPR s, 1 - TPR s)"
  then obtain w1 w2 w3 w4 where
    x: "x = (w1 * 0 + w2 * 1 + w3 * FPR s + w4 * (1 - FPR s),
             w1 * 0 + w2 * 1 + w3 * TPR s + w4 * (1 - TPR s))"
    and nn: "0 \<le> w1" "0 \<le> w2" "0 \<le> w3" "0 \<le> w4" and s1: "w1 + w2 + w3 + w4 = 1"
    unfolding convex_hull4_def by (simp only: fst_conv snd_conv) blast
  define r where "r = \<lparr>p0 = w1 + w4, p1 = w2 + w4\<rparr>"
  from nn s1 have v: "valid_rule r" by (simp add: valid_rule_def r_def)
  have "x = operating_point s r"
    unfolding x operating_point_def adjusted_FPR_alt [OF assms(1)] adjusted_TPR_alt [OF assms(2)]
      rate_unmix [OF s1] by (simp add: r_def)
  with v show "x \<in> reachable s" by (auto simp: reachable_def)
qed

lemma corner_rule_point:
  assumes "0 < falsePositive s + trueNegative s" "0 < truePositive s + falseNegative s"
  shows "operating_point s (corner_rule c) = corner_point s c"
  unfolding operating_point_def adjusted_FPR_alt [OF assms(1)] adjusted_TPR_alt [OF assms(2)]
  by (cases c) simp_all

lemma corner_rule_label:
  "positive_prob (corner_rule c) raw = (if corner_label c raw then 1 else 0)"
  by (cases c) (simp_all add: positive_prob_def)

lemma mix_point:
  assumes "0 < falsePositive s + trueNegative s" "0 < truePositive s + falseNegative s"
  shows "operating_point s (mix a b w) =
     (w * fst (corner_point s a) + (1 - w) * fst (corner_point s b),
      w * snd (corner_point s a) + (1 - w) * snd (corner_point s b))"
  unfolding corner_rule_point [OF assms, symmetric]
  unfolding operating_point_def adjusted_FPR_alt [OF assms(1)] adjusted_TPR_alt [OF assms(2)]
  by (simp add: mix_def algebra_simps)

lemma mix_valid: "0 \<le> w \<Longrightarrow> w \<le> 1 \<Longrightarrow> valid_rule (mix a b w)"
  by (cases a; cases b) (simp_all add: mix_def valid_rule_def)

text \<open>
  Claim C4. For a group with at least one negative and one positive instance (so that its
  raw operating point \<open>(FPR\<^sub>g, TPR\<^sub>g)\<close> exists), the operating points its mixing rules reach
  are exactly the convex hull of \<open>(0, 0)\<close>, \<open>(1, 1)\<close>, \<open>(FPR\<^sub>g, TPR\<^sub>g)\<close> and
  \<open>(1 - FPR\<^sub>g, 1 - TPR\<^sub>g)\<close>; each corner strategy sits on its corner; and mixing corners \<open>a\<close>
  and \<open>b\<close> with a weight \<open>w\<close> in \<open>[0, 1]\<close> is a valid rule whose operating point is
  \<open>w \<sdot> corner\<^sub>a + (1 - w) \<sdot> corner\<^sub>b\<close>.
\<close>

theorem mixing_reaches_convex_hull:
  assumes "0 < falsePositive s + trueNegative s" and "0 < truePositive s + falseNegative s"
  shows "reachable s = convex_hull4 (0, 0) (1, 1) (FPR s, TPR s) (1 - FPR s, 1 - TPR s)
    \<and> (\<forall>c. operating_point s (corner_rule c) = corner_point s c)
    \<and> (\<forall>a b w. 0 \<le> w \<and> w \<le> 1 \<longrightarrow>
          valid_rule (mix a b w)
          \<and> operating_point s (mix a b w) =
              (w * fst (corner_point s a) + (1 - w) * fst (corner_point s b),
               w * snd (corner_point s a) + (1 - w) * snd (corner_point s b)))"
proof (intro conjI allI impI)
  show "reachable s = convex_hull4 (0, 0) (1, 1) (FPR s, TPR s) (1 - FPR s, 1 - TPR s)"
    using reachable_subset_hull [OF assms] hull_subset_reachable [OF assms] by (rule equalityI)
next
  fix c show "operating_point s (corner_rule c) = corner_point s c"
    by (rule corner_rule_point [OF assms])
next
  fix a b and w :: real assume "0 \<le> w \<and> w \<le> 1"
  then show "valid_rule (mix a b w)" by (simp add: mix_valid)
next
  fix a b and w :: real
  show "operating_point s (mix a b w) =
     (w * fst (corner_point s a) + (1 - w) * fst (corner_point s b),
      w * snd (corner_point s a) + (1 - w) * snd (corner_point s b))"
    by (rule mix_point [OF assms])
qed

text \<open>On the example group, whose corners are \<open>(0, 0)\<close>, \<open>(1, 1)\<close>, \<open>(1/2, 7/10)\<close> and
  \<open>(1/2, 3/10)\<close>: the rule \<open>p0 = 1/2, p1 = 1/4\<close> reaches \<open>(3/8, 17/40)\<close>, a point of the
  hull, and the even mix of identity and always-1 reaches \<open>(3/4, 17/20)\<close>.\<close>

theorem mixing_reaches_convex_hull_witness:
  "0 < falsePositive example_stats + trueNegative example_stats
   \<and> 0 < truePositive example_stats + falseNegative example_stats
   \<and> (3 / 8, 17 / 40) \<in> convex_hull4 (0, 0) (1, 1) (1 / 2, 7 / 10) (1 / 2, 3 / 10)
   \<and> operating_point example_stats (mix Identity Always1 (1 / 2)) = (3 / 4, 17 / 20)"
proof -
  have n: "0 < falsePositive example_stats + trueNegative example_stats"
    and p: "0 < truePositive example_stats + falseNegative example_stats"
    by (simp_all add: example_stats_def)
  have rates: "FPR example_stats = 1 / 2" "TPR example_stats = 7 / 10"
    by (simp_all add: FPR_def TPR_def example_stats_def)
  note hull = mixing_reaches_convex_hull [OF n p]
  have "operating_point example_stats \<lparr>p0 = 1 / 2, p1 = 1 / 4\<rparr> = (3 / 8, 17 / 40)"
    by (simp add: operating_point_def adjusted_FPR_def adjusted_TPR_def positive_prob_def
        example_stats_def)
  moreover have "valid_rule \<lparr>p0 = 1 / 2, p1 = 1 / 4\<rparr>"
    by (simp add: valid_rule_def)
  ultimately have "(3 / 8, 17 / 40) \<in> reachable example_stats"
    unfolding reachable_def by (metis (mono_tags, lifting) mem_Collect_eq)
  with hull have in_hull:
    "(3 / 8, 17 / 40) \<in> convex_hull4 (0, 0) (1, 1) (1 / 2, 7 / 10) (1 / 2, 3 / 10)"
    by (simp add: rates)
  from hull have "operating_point example_stats (mix Identity Always1 (1 / 2)) =
      (1 / 2 * fst (corner_point example_stats Identity)
         + (1 - 1 / 2) * fst (corner_point example_stats Always1),
       1 / 2 * snd (corner_point example_stats Identity)
         + (1 - 1 / 2) * snd (corner_point example_stats Always1))"
    by simp
  then have "operating_point example_stats (mix Identity Always1 (1 / 2)) = (3 / 4, 17 / 20)"
    by (simp add: rates)
  with n p in_hull show ?thesis by simp
qed

end
